theory Spec2Isabelle
  imports Main "HOL-Library.Sublist" "HOL-Library.Multiset" "HOL-Library.Option_ord"
    "HOL-Library.Product_Lexorder"
begin

section \<open>Product discovery of the marketplace backend (routes/products)\<close>

text \<open>
  The development embeds the listing routes of the server: the helpers
  \<open>addKeywords\<close> and \<open>hasKeywordMatch\<close>, the listing handler \<open>GET /\<close> with its
  popularity pipeline, the handler \<open>GET /recommend\<close> and the like toggle
  \<open>POST /:id/like\<close>.

  Strings are \<open>string\<close>, read as sequences of code units in the ASCII range:
  \<open>toLowerCase\<close> maps \<open>A\<close>..\<open>Z\<close> to \<open>a\<close>..\<open>z\<close> and leaves every other character
  alone, and white space is the ASCII part of the class \<open>\s\<close>.
  Identities (\<open>_id\<close>, user ids) are canonical ObjectId strings, so that
  \<open>String(new Types.ObjectId(s)) = s\<close>.
\<close>

subsection \<open>Strings\<close>

definition lower_char :: "char \<Rightarrow> char" where
  "lower_char c =
     (let n = (of_char c :: nat)
      in if 65 \<le> n \<and> n \<le> 90 then char_of (n + 32) else c)"

definition toLowerCase :: "string \<Rightarrow> string" where
  "toLowerCase s = map lower_char s"

definition is_space :: "char \<Rightarrow> bool" where
  "is_space c = ((of_char c :: nat) \<in> {9, 10, 11, 12, 13, 32})"

definition trim :: "string \<Rightarrow> string" where
  "trim s = rev (dropWhile is_space (rev (dropWhile is_space s)))"

text \<open>\<open>s.includes(k)\<close>: \<open>k\<close> occurs in \<open>s\<close> as a contiguous run.\<close>

fun str_includes :: "string \<Rightarrow> string \<Rightarrow> bool" where
  "str_includes [] k = (k = [])"
| "str_includes (c # cs) k = (prefix k (c # cs) \<or> str_includes cs k)"

text \<open>
  The character class of \<open>keywordSplitRegex = /[\s,.;:/\\|()+\-_"'!?]+/\<close>.
\<close>

definition is_sep :: "char \<Rightarrow> bool" where
  "is_sep c =
     (is_space c \<or>
      c \<in> set [CHR '','', CHR ''.'', CHR '';'', CHR '':'', CHR ''/'', CHR 0x5C,
                CHR ''|'', CHR ''('', CHR '')'', CHR ''+'', CHR ''-'', CHR ''_'',
                CHR 0x22, CHR 0x27, CHR ''!'', CHR ''?''])"

text \<open>
  \<open>s.split(keywordSplitRegex)\<close>: the pieces between maximal runs of separator
  characters; a separator at the start or at the end leaves an empty piece there,
  and the empty string splits into one empty piece.  \<open>cur\<close> is the piece being read.
\<close>

function split_from :: "string \<Rightarrow> string \<Rightarrow> string list" where
  "split_from cur [] = [cur]"
| "split_from cur (c # cs) =
     (if is_sep c then cur # split_from [] (dropWhile is_sep cs)
      else split_from (cur @ [c]) cs)"
  by pat_completeness auto
termination
  by (relation "measure (\<lambda>(cur, s). length s)")
     (auto simp: le_imp_less_Suc length_dropWhile_le)

definition split_keywords :: "string \<Rightarrow> string list" where
  "split_keywords s = split_from [] s"

subsection \<open>JavaScript sets\<close>

text \<open>
  A \<open>Set<string>\<close> is the list of its members in insertion order; \<open>add\<close> of a
  member leaves the set as it is.
\<close>

type_synonym 'a jsset = "'a list"

definition set_add :: "'a \<Rightarrow> 'a jsset \<Rightarrow> 'a jsset" where
  "set_add x s = (if x \<in> set s then s else s @ [x])"

definition new_set :: "'a list \<Rightarrow> 'a jsset" where
  "new_set xs = fold set_add xs []"

definition set_has :: "'a jsset \<Rightarrow> 'a \<Rightarrow> bool" where
  "set_has s x = (x \<in> set s)"

subsection \<open>Interest extraction\<close>

text \<open>
  \<open>addKeywords(set, title)\<close> mutates \<open>set\<close>; the model returns the set after the call.
  A title is \<open>None\<close> when \<open>undefined\<close> or \<open>null\<close>; \<open>!title\<close> also holds of the empty string.
\<close>

definition truthy :: "string option \<Rightarrow> bool" where
  "truthy t = (case t of None \<Rightarrow> False | Some s \<Rightarrow> s \<noteq> [])"

definition addKeywords :: "string jsset \<Rightarrow> string option \<Rightarrow> string jsset" where
  "addKeywords s title =
     (case title of
        None \<Rightarrow> s
      | Some t \<Rightarrow>
          if t = [] then s
          else
            let words = filter (\<lambda>w. length w \<ge> 2)
                          (map trim (split_keywords (toLowerCase t)))
            in fold set_add words s)"

definition hasKeywordMatch :: "string option \<Rightarrow> string jsset \<Rightarrow> bool" where
  "hasKeywordMatch title keywords =
     (case title of
        None \<Rightarrow> False
      | Some t \<Rightarrow>
          if t = [] \<or> length keywords = 0 then False
          else
            let lowerTitle = toLowerCase t
            in list_ex (\<lambda>keyword. str_includes lowerTitle keyword) keywords)"

subsection \<open>The stores\<close>

text \<open>
  A handler either answers (\<open>Ok\<close> with the payload, \<open>Fail\<close> with a status) or throws:
  no handler below catches, so a thrown error ends the request without an answer.
  Two errors can be thrown by a request: a \<open>TypeError\<close> when a query parameter is not
  a string, and the database's rejection of a \<open>$regex\<close> it cannot compile.  A database
  that is away is outside the model.

  A product document with the fields the discovery code reads.  \<open>title\<close>,
  \<open>category\<close>, \<open>likedBy\<close> and \<open>shareCount\<close> may be missing from a stored or lean
  document (the code guards each of them), \<open>createdAt\<close> is the creation time in
  milliseconds.  The list of products is the collection in its natural order.
\<close>

record product =
  pid :: string
  title :: "string option"
  category :: "string option"
  likedBy :: "string list option"
  shareCount :: "int option"
  createdAt :: nat

record user_doc =
  uid :: string
  recentlyViewedProducts :: "string list option"
  sharedProducts :: "string list option"

record store =
  products :: "product list"
  users :: "user_doc list"

datatype 'a response = Ok 'a | Fail nat string

datatype error = TypeError | StoreError

text \<open>
  A value of \<open>req.query\<close>: a string, an array (\<open>?q=a&q=b\<close>) or a nested object
  (\<open>?q[k]=v\<close>).
\<close>

datatype param = Str string | Arr "param list" | Obj "(string \<times> param) list"

definition HISTORY_LIMIT :: nat where
  "HISTORY_LIMIT = 50"

text \<open>
  A query filter: an optional case-insensitive \<open>$regex\<close> on the title and an
  optional category.  The regular-expression engine belongs to the database; it is
  the parameter \<open>rx pattern subject\<close> of every query below, read for the patterns
  the engine compiles.  Whether it compiles a pattern is the parameter
  \<open>rx_ok pattern\<close>.
\<close>

record query_filter =
  f_title :: "string option"
  f_category :: "string option"

definition matches :: "(string \<Rightarrow> string \<Rightarrow> bool) \<Rightarrow> query_filter \<Rightarrow> product \<Rightarrow> bool" where
  "matches rx f p =
     ((case f_title f of
         None \<Rightarrow> True
       | Some pat \<Rightarrow> (case title p of None \<Rightarrow> False | Some t \<Rightarrow> rx pat t)) \<and>
      (case f_category f of
         None \<Rightarrow> True
       | Some c \<Rightarrow> category p = Some c))"

text \<open>
  \<open>$sort\<close> with every direction \<open>-1\<close>: \<open>before_desc keys a b\<close> holds when \<open>a\<close> may
  stand before \<open>b\<close>.  A missing key is \<open>None\<close> and sorts below every value.  The
  database promises no order among documents with equal keys; the model keeps the
  incoming one, and the theorems below do not depend on it.
\<close>

fun before_desc :: "('a \<Rightarrow> int option) list \<Rightarrow> 'a \<Rightarrow> 'a \<Rightarrow> bool" where
  "before_desc [] a b = True"
| "before_desc (k # ks) a b = (k a > k b \<or> (k a = k b \<and> before_desc ks a b))"

fun insert_by :: "('a \<Rightarrow> 'a \<Rightarrow> bool) \<Rightarrow> 'a \<Rightarrow> 'a list \<Rightarrow> 'a list" where
  "insert_by le x [] = [x]"
| "insert_by le x (y # ys) = (if le x y then x # y # ys else y # insert_by le x ys)"

definition sort_by :: "('a \<Rightarrow> 'a \<Rightarrow> bool) \<Rightarrow> 'a list \<Rightarrow> 'a list" where
  "sort_by le xs = foldr (insert_by le) xs []"

definition key_createdAt :: "product \<Rightarrow> int option" where
  "key_createdAt p = Some (int (createdAt p))"

text \<open>\<open>Product.find(filter).sort({ createdAt: -1 }).limit(n)\<close>\<close>

definition find_recent :: "(string \<Rightarrow> string \<Rightarrow> bool) \<Rightarrow> store \<Rightarrow> query_filter \<Rightarrow> nat \<Rightarrow> product list" where
  "find_recent rx st f n =
     take n (sort_by (before_desc [key_createdAt]) (filter (matches rx f) (products st)))"

text \<open>The same read as the database runs it: a pattern it cannot compile is rejected.\<close>

definition accepts :: "(string \<Rightarrow> bool) \<Rightarrow> query_filter \<Rightarrow> bool" where
  "accepts rx_ok f = (case f_title f of None \<Rightarrow> True | Some pat \<Rightarrow> rx_ok pat)"

definition find_recent_db ::
  "(string \<Rightarrow> bool) \<Rightarrow> (string \<Rightarrow> string \<Rightarrow> bool) \<Rightarrow> store \<Rightarrow> query_filter \<Rightarrow> nat \<Rightarrow>
   error + product list" where
  "find_recent_db rx_ok rx st f n =
     (if accepts rx_ok f then Inr (find_recent rx st f n) else Inl StoreError)"

subsection \<open>The listing handler and the popularity pipeline\<close>

text \<open>
  A document inside the aggregation: the product, with \<open>shareCount\<close> overwritten by
  the first \<open>$addFields\<close>, and the added fields.  \<open>popularityScore = None\<close> is a
  document without that field.
\<close>

record agg_doc =
  doc :: product
  likeCount :: int
  popularityScore :: "int option"

definition addCounts :: "product \<Rightarrow> agg_doc" where
  "addCounts p =
     \<lparr> doc = p\<lparr> shareCount := Some (case shareCount p of None \<Rightarrow> 0 | Some n \<Rightarrow> n) \<rparr>,
       likeCount = int (length (case likedBy p of None \<Rightarrow> [] | Some l \<Rightarrow> l)),
       popularityScore = None \<rparr>"

definition addScore :: "agg_doc \<Rightarrow> agg_doc" where
  "addScore d =
     d\<lparr> popularityScore :=
          (case shareCount (doc d) of None \<Rightarrow> None | Some n \<Rightarrow> Some (likeCount d + n)) \<rparr>"

definition popular_keys :: "(agg_doc \<Rightarrow> int option) list" where
  "popular_keys =
     [popularityScore,
      \<lambda>d. Some (likeCount d),
      \<lambda>d. shareCount (doc d),
      \<lambda>d. key_createdAt (doc d)]"

definition project_out :: "agg_doc \<Rightarrow> agg_doc" where
  "project_out d = d\<lparr> popularityScore := None \<rparr>"

definition popular_pipeline :: "(string \<Rightarrow> string \<Rightarrow> bool) \<Rightarrow> query_filter \<Rightarrow> product list \<Rightarrow> agg_doc list" where
  "popular_pipeline rx f ps =
     map project_out
       (take 200
          (sort_by (before_desc popular_keys)
             (map addScore (map addCounts (filter (matches rx f) ps)))))"

text \<open>\<open>x && x.trim()\<close> as the condition that sets a filter field to \<open>x.trim()\<close>.\<close>

definition trimmed_param :: "string option \<Rightarrow> string option" where
  "trimmed_param x =
     (case x of
        None \<Rightarrow> None
      | Some s \<Rightarrow> if s \<noteq> [] \<and> trim s \<noteq> [] then Some (trim s) else None)"

datatype listing = Plain "product list" | Ranked "agg_doc list"

text \<open>\<open>GET /\<close> with the query parameters \<open>q\<close>, \<open>category\<close> and \<open>sort\<close>
  (\<open>query\<close>, \<open>cat\<close> and \<open>sortp\<close> below), for string parameters and a pattern
  that the database compiles: the answer of the handler when it answers.\<close>

definition list_products ::
  "(string \<Rightarrow> string \<Rightarrow> bool) \<Rightarrow> store \<Rightarrow> string option \<Rightarrow> string option \<Rightarrow> string option \<Rightarrow> listing response" where
  "list_products rx st query cat sortp =
     (let flt = \<lparr> f_title = trimmed_param query, f_category = trimmed_param cat \<rparr>
      in if sortp = Some ''popular'' then Ok (Ranked (popular_pipeline rx flt (products st)))
         else Ok (Plain (find_recent rx st flt 200)))"

subsection \<open>The recommendation handler\<close>

text \<open>
  The local values of \<open>GET /recommend\<close>, in the order the handler computes them.
  \<open>i\<close> is \<open>user.id\<close> of an identified caller, \<open>keyword\<close> the trimmed parameter \<open>q\<close>.
\<close>

text \<open>\<open>(q || "").trim()\<close> for a parameter that is a string or absent.\<close>

definition keyword_of :: "string option \<Rightarrow> string" where
  "keyword_of query = trim (case query of None \<Rightarrow> [] | Some s \<Rightarrow> s)"

text \<open>
  \<open>((req.query.q as string) || "").trim()\<close> for any parameter: an array and an object
  are truthy and have no method \<open>trim\<close>, so the call throws.
\<close>

definition keyword_of_param :: "param option \<Rightarrow> error + string" where
  "keyword_of_param q =
     (case q of
        None \<Rightarrow> Inr (keyword_of None)
      | Some (Str s) \<Rightarrow> Inr (keyword_of (Some s))
      | Some (Arr vs) \<Rightarrow> Inl TypeError
      | Some (Obj kvs) \<Rightarrow> Inl TypeError)"

definition keywordFilter :: "string \<Rightarrow> query_filter" where
  "keywordFilter keyword =
     \<lparr> f_title = (if keyword \<noteq> [] then Some keyword else None), f_category = None \<rparr>"

definition fetchDefaultList ::
  "(string \<Rightarrow> bool) \<Rightarrow> (string \<Rightarrow> string \<Rightarrow> bool) \<Rightarrow> store \<Rightarrow> string \<Rightarrow>
   error + product list response" where
  "fetchDefaultList rx_ok rx st keyword =
     (case find_recent_db rx_ok rx st (keywordFilter keyword) 200 of
        Inl e \<Rightarrow> Inl e
      | Inr list \<Rightarrow> Inr (Ok list))"

text \<open>A source document after \<open>.select("category title").lean()\<close>.\<close>

record source =
  s_id :: string
  s_category :: "string option"
  s_title :: "string option"

definition select_category_title :: "product \<Rightarrow> source" where
  "select_category_title p = \<lparr> s_id = pid p, s_category = category p, s_title = title p \<rparr>"

definition findById :: "store \<Rightarrow> string \<Rightarrow> user_doc option" where
  "findById st i = find (\<lambda>u. uid u = i) (users st)"

definition likedProducts :: "store \<Rightarrow> string \<Rightarrow> source list" where
  "likedProducts st i =
     map select_category_title
       (take 40
          (filter (\<lambda>p. case likedBy p of None \<Rightarrow> False | Some l \<Rightarrow> i \<in> set l) (products st)))"

definition sharedIds :: "store \<Rightarrow> string \<Rightarrow> string list" where
  "sharedIds st i =
     take HISTORY_LIMIT
       (case findById st i of
          None \<Rightarrow> []
        | Some u \<Rightarrow> (case sharedProducts u of None \<Rightarrow> [] | Some l \<Rightarrow> l))"

definition viewedIds :: "store \<Rightarrow> string \<Rightarrow> string list" where
  "viewedIds st i =
     take HISTORY_LIMIT
       (case findById st i of
          None \<Rightarrow> []
        | Some u \<Rightarrow> (case recentlyViewedProducts u of None \<Rightarrow> [] | Some l \<Rightarrow> l))"

text \<open>\<open>ids.length ? Product.find({ _id: { $in: ids } }).select("category title") : []\<close>\<close>

definition find_in :: "store \<Rightarrow> string list \<Rightarrow> source list" where
  "find_in st ids =
     (if length ids \<noteq> 0
      then map select_category_title (filter (\<lambda>p. pid p \<in> set ids) (products st))
      else [])"

definition primarySources :: "store \<Rightarrow> string \<Rightarrow> source list" where
  "primarySources st i = likedProducts st i @ find_in st (sharedIds st i)"

definition secondarySources :: "store \<Rightarrow> string \<Rightarrow> source list" where
  "secondarySources st i = find_in st (viewedIds st i)"

definition categories_of :: "source list \<Rightarrow> string jsset" where
  "categories_of srcs =
     new_set
       (filter (\<lambda>c. c \<noteq> [])
          (map (\<lambda>p. trim (case s_category p of None \<Rightarrow> [] | Some c \<Rightarrow> c)) srcs))"

definition keywords_of :: "source list \<Rightarrow> string \<Rightarrow> string jsset" where
  "keywords_of srcs keyword =
     (let ks = fold (\<lambda>p s. addKeywords s (s_title p)) srcs []
      in if keyword \<noteq> [] then set_add (toLowerCase keyword) ks else ks)"

definition excludeIds_of :: "source list \<Rightarrow> source list \<Rightarrow> string jsset" where
  "excludeIds_of prim sec = new_set (map s_id prim @ map s_id sec)"

subsubsection \<open>The candidate scorer\<close>

record tiers =
  primaryMatches :: "product list"
  secondaryMatches :: "product list"
  fallbackMatches :: "product list"

definition matchesCategory :: "string jsset \<Rightarrow> product \<Rightarrow> bool" where
  "matchesCategory cats p =
     (truthy (category p) \<and> (case category p of None \<Rightarrow> False | Some c \<Rightarrow> set_has cats c))"

text \<open>One pass of the loop body over \<open>product\<close>; \<open>acc\<close> holds the three arrays.\<close>

definition classify ::
  "string jsset \<Rightarrow> string jsset \<Rightarrow> string jsset \<Rightarrow> string jsset \<Rightarrow> string jsset \<Rightarrow>
   tiers \<Rightarrow> product \<Rightarrow> tiers" where
  "classify primaryCategories primaryKeywords secondaryCategories secondaryKeywords excludeIds
     acc p =
     (if set_has excludeIds (pid p) then acc
      else
        let matchesPrimaryCategory = matchesCategory primaryCategories p;
            matchesPrimaryKeyword = hasKeywordMatch (title p) primaryKeywords;
            matchesSecondaryCategory = matchesCategory secondaryCategories p;
            matchesSecondaryKeyword = hasKeywordMatch (title p) secondaryKeywords
        in if matchesPrimaryCategory \<or> matchesPrimaryKeyword
           then acc\<lparr> primaryMatches := primaryMatches acc @ [p] \<rparr>
           else if matchesSecondaryCategory \<or> matchesSecondaryKeyword
           then acc\<lparr> secondaryMatches := secondaryMatches acc @ [p] \<rparr>
           else acc\<lparr> fallbackMatches := fallbackMatches acc @ [p] \<rparr>)"

definition score_candidates ::
  "string jsset \<Rightarrow> string jsset \<Rightarrow> string jsset \<Rightarrow> string jsset \<Rightarrow> string jsset \<Rightarrow>
   product list \<Rightarrow> tiers" where
  "score_candidates pc pk sc sk ex candidates =
     foldl (classify pc pk sc sk ex)
       \<lparr> primaryMatches = [], secondaryMatches = [], fallbackMatches = [] \<rparr> candidates"

definition merge_tiers :: "nat \<Rightarrow> tiers \<Rightarrow> product list" where
  "merge_tiers limit t = take limit (primaryMatches t @ secondaryMatches t @ fallbackMatches t)"

definition scorer ::
  "string jsset \<Rightarrow> string jsset \<Rightarrow> string jsset \<Rightarrow> string jsset \<Rightarrow> string jsset \<Rightarrow>
   product list \<Rightarrow> product list" where
  "scorer pc pk sc sk ex candidates = merge_tiers 200 (score_candidates pc pk sc sk ex candidates)"

subsubsection \<open>The handler\<close>

definition excludeIds :: "store \<Rightarrow> string \<Rightarrow> string jsset" where
  "excludeIds st i = excludeIds_of (primarySources st i) (secondarySources st i)"

definition candidates_of :: "(string \<Rightarrow> string \<Rightarrow> bool) \<Rightarrow> store \<Rightarrow> string \<Rightarrow> product list" where
  "candidates_of rx st keyword = find_recent rx st (keywordFilter keyword) (200 * 2)"

definition merged :: "(string \<Rightarrow> string \<Rightarrow> bool) \<Rightarrow> store \<Rightarrow> string \<Rightarrow> string \<Rightarrow> product list" where
  "merged rx st i keyword =
     scorer
       (categories_of (primarySources st i))
       (keywords_of (primarySources st i) keyword)
       (categories_of (secondarySources st i))
       (keywords_of (secondarySources st i) keyword)
       (excludeIds st i)
       (candidates_of rx st keyword)"

text \<open>
  \<open>candidates_of\<close> and \<open>merged\<close> are the values of \<open>candidates\<close> and \<open>merged\<close> when
  the read of the candidates succeeds.  The handler itself, with every read in the
  order of the source; it stops at the first error thrown.
\<close>

definition recommend ::
  "(string \<Rightarrow> bool) \<Rightarrow> (string \<Rightarrow> string \<Rightarrow> bool) \<Rightarrow> store \<Rightarrow> string option \<Rightarrow> param option \<Rightarrow>
   error + product list response" where
  "recommend rx_ok rx st user q =
     (case keyword_of_param q of
        Inl e \<Rightarrow> Inl e
      | Inr keyword \<Rightarrow>
          (case user of
             None \<Rightarrow>
               if keyword = [] then fetchDefaultList rx_ok rx st keyword
               else (case find_recent_db rx_ok rx st (keywordFilter keyword) 200 of
                       Inl e \<Rightarrow> Inl e
                     | Inr list \<Rightarrow> Inr (Ok list))
           | Some i \<Rightarrow>
               if length (primarySources st i) = 0 \<and> length (secondarySources st i) = 0
                  \<and> keyword = []
               then fetchDefaultList rx_ok rx st keyword
               else
                 (case find_recent_db rx_ok rx st (keywordFilter keyword) (200 * 2) of
                    Inl e \<Rightarrow> Inl e
                  | Inr candidates \<Rightarrow>
                      let merged_list =
                            scorer
                              (categories_of (primarySources st i))
                              (keywords_of (primarySources st i) keyword)
                              (categories_of (secondarySources st i))
                              (keywords_of (secondarySources st i) keyword)
                              (excludeIds st i)
                              candidates
                      in if length merged_list = 0 then fetchDefaultList rx_ok rx st keyword
                         else Inr (Ok merged_list))))"

subsection \<open>The like toggle\<close>

text \<open>
  \<open>POST /:id/like\<close>.  The hydrated document has an array for \<open>likedBy\<close> even when the
  stored one lacks the field.  \<open>save\<close> writes the document back under its \<open>_id\<close>.
\<close>

fun save :: "product \<Rightarrow> product list \<Rightarrow> product list" where
  "save item [] = []"
| "save item (p # ps) = (if pid p = pid item then item # ps else p # save item ps)"

definition hydrated_likedBy :: "product \<Rightarrow> string list" where
  "hydrated_likedBy item = (case likedBy item of None \<Rightarrow> [] | Some l \<Rightarrow> l)"

definition toggle :: "string \<Rightarrow> product \<Rightarrow> product" where
  "toggle i item =
     (let likedBy0 = hydrated_likedBy item;
          isLiked = list_ex (\<lambda>x. x = i) likedBy0
      in if isLiked then item\<lparr> likedBy := Some (filter (\<lambda>x. x \<noteq> i) likedBy0) \<rparr>
         else item\<lparr> likedBy := Some (likedBy0 @ [i]) \<rparr>)"

definition like :: "store \<Rightarrow> string option \<Rightarrow> string \<Rightarrow> (bool \<times> nat) response \<times> store" where
  "like st user i =
     (case user of
        None \<Rightarrow> (Fail 401 ''unauthorized'', st)
      | Some u \<Rightarrow>
          (case find (\<lambda>p. pid p = i) (products st) of
             None \<Rightarrow> (Fail 404 ''not_found'', st)
           | Some item \<Rightarrow>
               let isLiked = list_ex (\<lambda>x. x = u) (hydrated_likedBy item);
                   item' = toggle u item
               in (Ok (\<not> isLiked, length (hydrated_likedBy item')),
                   st\<lparr> products := save item' (products st) \<rparr>)))"

subsection \<open>Specification-level notions\<close>

text \<open>
  The definitions of this subsection are not code: they write down the reference
  statements that the theorems compare the code with.
\<close>

text \<open>
  Keyword matching in the words of the specification: the lower-cased title
  contains at least one keyword of the set as a substring (an absent title contains
  nothing).
\<close>

definition spec_matchesKeyword :: "string option \<Rightarrow> string list \<Rightarrow> bool" where
  "spec_matchesKeyword ttl keywords =
     (case ttl of
        None \<Rightarrow> False
      | Some t \<Rightarrow> list_ex (\<lambda>k. sublist k (toLowerCase t)) keywords)"

text \<open>A match of a candidate against a profile: its category is in the category set, or
  its title keyword-matches the keyword set.\<close>

definition spec_category_in :: "string jsset \<Rightarrow> product \<Rightarrow> bool" where
  "spec_category_in cats p = (case category p of None \<Rightarrow> False | Some c \<Rightarrow> c \<in> set cats)"

definition spec_match :: "string jsset \<Rightarrow> string jsset \<Rightarrow> product \<Rightarrow> bool" where
  "spec_match cats kws p = (spec_category_in cats p \<or> spec_matchesKeyword (title p) kws)"

text \<open>The three tiers as filters of the pool, concatenated and cut at 200.\<close>

definition spec_tiered ::
  "string jsset \<Rightarrow> string jsset \<Rightarrow> string jsset \<Rightarrow> string jsset \<Rightarrow> string jsset \<Rightarrow>
   product list \<Rightarrow> product list" where
  "spec_tiered pc pk sc sk ex pool =
     (let kept = filter (\<lambda>p. pid p \<notin> set ex) pool;
          tier1 = filter (spec_match pc pk) kept;
          remaining = filter (\<lambda>p. \<not> spec_match pc pk p) kept;
          tier2 = filter (spec_match sc sk) remaining;
          tier3 = filter (\<lambda>p. \<not> spec_match sc sk p) remaining
      in take 200 (tier1 @ tier2 @ tier3))"

text \<open>Popularity in the words of the specification.\<close>

definition spec_likeCount :: "product \<Rightarrow> int" where
  "spec_likeCount p = int (length (case likedBy p of None \<Rightarrow> [] | Some l \<Rightarrow> l))"

definition spec_shareCount :: "product \<Rightarrow> int" where
  "spec_shareCount p = (case shareCount p of None \<Rightarrow> 0 | Some n \<Rightarrow> n)"

definition spec_popularityScore :: "product \<Rightarrow> int" where
  "spec_popularityScore p = spec_likeCount p + spec_shareCount p"

text \<open>The sort key; tuples are ordered lexicographically.\<close>

definition spec_key :: "product \<Rightarrow> int \<times> int \<times> int \<times> nat" where
  "spec_key p = (spec_popularityScore p, spec_likeCount p, spec_shareCount p, createdAt p)"

text \<open>The entry answered for a listing: both counters, no \<open>popularityScore\<close>.\<close>

definition spec_returned :: "product \<Rightarrow> agg_doc" where
  "spec_returned p =
     \<lparr> doc = p\<lparr> shareCount := Some (spec_shareCount p) \<rparr>,
       likeCount = spec_likeCount p,
       popularityScore = None \<rparr>"

subsection \<open>Example data\<close>

text \<open>
  A matcher for patterns without metacharacters (case-insensitive containment), and
  small stores on which the theorems are instantiated.
\<close>

definition literal_rx :: "string \<Rightarrow> string \<Rightarrow> bool" where
  "literal_rx pat subject = str_includes (toLowerCase subject) (toLowerCase pat)"

text \<open>Two engines: one compiles every pattern, one every pattern but the lone \<open>(\<close>,
  which no regular-expression engine compiles.\<close>

definition any_pattern :: "string \<Rightarrow> bool" where
  "any_pattern pat = True"

definition all_but_paren :: "string \<Rightarrow> bool" where
  "all_but_paren pat = (pat \<noteq> ''('')"

definition desk :: product where
  "desk = \<lparr> pid = ''p1'', title = Some ''Oak Desk'', category = Some ''furniture'',
            likedBy = Some [''u1''], shareCount = Some 0, createdAt = 30 \<rparr>"

definition lamp :: product where
  "lamp = \<lparr> pid = ''p2'', title = Some ''Lamp'', category = Some [],
            likedBy = Some [], shareCount = None, createdAt = 20 \<rparr>"

definition phone :: product where
  "phone = \<lparr> pid = ''p3'', title = Some ''Phone'', category = Some ''electronics'',
             likedBy = None, shareCount = Some 1, createdAt = 10 \<rparr>"

definition chair :: product where
  "chair = \<lparr> pid = ''p4'', title = Some ''Oak chair'', category = Some ''garden'',
             likedBy = Some [], shareCount = Some 0, createdAt = 40 \<rparr>"

definition shop :: store where
  "shop = \<lparr> products = [phone, desk, lamp, chair],
            users = [\<lparr> uid = ''u1'', recentlyViewedProducts = Some [''p3''],
                       sharedProducts = None \<rparr>] \<rparr>"

text \<open>A store whose only listing is liked by \<open>u1\<close>.\<close>

definition one_liked :: store where
  "one_liked = \<lparr> products = [desk], users = [] \<rparr>"

text \<open>Listing A has 10 likes and 2 shares, the newer listing B 8 likes and 4 shares.\<close>

definition listingA :: product where
  "listingA = \<lparr> pid = ''a'', title = Some ''A'', category = Some ''x'',
                likedBy = Some [''ann'', ''ben'', ''cho'', ''dan'', ''eve'', ''fay'', ''gus'', ''hal'', ''ida'',
                           ''jon''],
                shareCount = Some 2, createdAt = 1 \<rparr>"

definition listingB :: product where
  "listingB = \<lparr> pid = ''b'', title = Some ''B'', category = Some ''x'',
                likedBy = Some [''ann'', ''ben'', ''cho'', ''dan'', ''eve'', ''fay'', ''gus'', ''hal''],
                shareCount = Some 4, createdAt = 2 \<rparr>"

definition ab_store :: store where
  "ab_store = \<lparr> products = [listingB, listingA], users = [] \<rparr>"

section \<open>Verification\<close>

subsection \<open>Strings and sets\<close>

lemma str_includes_sublist: "str_includes s k = sublist k s"
  by (induction s) (auto simp: sublist_Cons_right)

lemma set_fold_set_add: "set (fold set_add ws s) = set s \<union> set ws"
  by (induction ws arbitrary: s) (auto simp: set_add_def)

lemma fold_set_add_absorb: "set ws \<subseteq> set s \<Longrightarrow> fold set_add ws s = s"
  by (induction ws arbitrary: s) (auto simp: set_add_def)

lemma set_new_set: "set (new_set xs) = set xs"
  by (simp add: new_set_def set_fold_set_add)

text \<open>
  The guard \<open>!title\<close> also answers false for the empty title; that differs from
  containment only for the empty keyword, which the empty title contains.
\<close>

lemma hasKeywordMatch_guarded:
  "hasKeywordMatch ttl keywords = (ttl \<noteq> Some [] \<and> spec_matchesKeyword ttl keywords)"
  by (auto simp: hasKeywordMatch_def spec_matchesKeyword_def Let_def list_ex_iff
      str_includes_sublist split: option.splits)

lemma hasKeywordMatch_nonempty:
  "[] \<notin> set keywords \<Longrightarrow> hasKeywordMatch ttl keywords = spec_matchesKeyword ttl keywords"
  unfolding hasKeywordMatch_guarded
  by (auto simp: spec_matchesKeyword_def list_ex_iff toLowerCase_def)

text \<open>The keyword sets of the handler hold tokens of two characters or more and the
  non-empty keyword of the request, never the empty keyword.\<close>

lemma addKeywords_nonempty: "[] \<notin> set s \<Longrightarrow> [] \<notin> set (addKeywords s ttl)"
  by (auto simp: addKeywords_def Let_def set_fold_set_add split: option.splits)

lemma fold_addKeywords_nonempty:
  "[] \<notin> set s \<Longrightarrow> [] \<notin> set (fold (\<lambda>p s. addKeywords s (s_title p)) srcs s)"
  by (induction srcs arbitrary: s) (simp_all add: addKeywords_nonempty)

lemma keywords_of_nonempty: "[] \<notin> set (keywords_of srcs keyword)"
  using fold_addKeywords_nonempty [of "[]" srcs]
  by (auto simp: keywords_of_def Let_def set_add_def toLowerCase_def)

text \<open>
  C7.  \<open>hasKeywordMatch\<close> returns true if and only if the lower-cased title contains
  at least one keyword of the set as a substring, for every title and every keyword
  set without the empty keyword, hence for every keyword set that the handler
  builds; it returns false whenever the keyword set is empty or the title is
  absent.
\<close>

theorem hasKeywordMatch_spec:
  "([] \<notin> set keywords \<longrightarrow>
       hasKeywordMatch ttl keywords = spec_matchesKeyword ttl keywords)
   \<and> hasKeywordMatch ttl (keywords_of srcs keyword)
       = spec_matchesKeyword ttl (keywords_of srcs keyword)
   \<and> \<not> hasKeywordMatch ttl []
   \<and> \<not> hasKeywordMatch None keywords"
proof (intro conjI impI)
  show "hasKeywordMatch ttl keywords = spec_matchesKeyword ttl keywords"
    if "[] \<notin> set keywords"
    using that by (rule hasKeywordMatch_nonempty)
  show "hasKeywordMatch ttl (keywords_of srcs keyword)
       = spec_matchesKeyword ttl (keywords_of srcs keyword)"
    by (rule hasKeywordMatch_nonempty) (rule keywords_of_nonempty)
  show "\<not> hasKeywordMatch ttl []"
    by (simp add: hasKeywordMatch_def split: option.splits)
  show "\<not> hasKeywordMatch None keywords"
    by (simp add: hasKeywordMatch_def)
qed

theorem hasKeywordMatch_spec_witness:
  "[] \<notin> set [''car'', ''bike'']
   \<and> hasKeywordMatch (Some ''Red Bike'') [''car'', ''bike'']
   \<and> \<not> hasKeywordMatch (Some ''Red Bike'') [''car'']
   \<and> \<not> hasKeywordMatch (Some []) [''car'']"
proof -
  have n: "[] \<notin> set [''car'', ''bike'']" "[] \<notin> set [''car'']"
    by simp_all
  have "spec_matchesKeyword (Some ''Red Bike'') [''car'', ''bike'']"
    and "\<not> spec_matchesKeyword (Some ''Red Bike'') [''car'']"
    and "\<not> spec_matchesKeyword (Some []) [''car'']"
    by code_simp+
  then show ?thesis
    using n hasKeywordMatch_spec [of "[''car'', ''bike'']" "Some ''Red Bike''" "[]" "[]"]
      hasKeywordMatch_spec [of "[''car'']" "Some ''Red Bike''" "[]" "[]"]
      hasKeywordMatch_spec [of "[''car'']" "Some []" "[]" "[]"]
    by simp
qed

text \<open>
  C8.  Applying \<open>addKeywords\<close> twice with the same title to the same set gives the
  set that one application gives.
\<close>

theorem addKeywords_idempotent:
  "addKeywords (addKeywords s ttl) ttl = addKeywords s ttl"
  by (auto simp: addKeywords_def Let_def set_fold_set_add intro!: fold_set_add_absorb
      split: option.splits)

theorem addKeywords_idempotent_witness:
  "addKeywords [''bike''] (Some ''Red Bike, red-BIKE x'') = [''bike'', ''red'']
   \<and> addKeywords (addKeywords [''bike''] (Some ''Red Bike, red-BIKE x''))
         (Some ''Red Bike, red-BIKE x'') = [''bike'', ''red'']"
proof -
  have "addKeywords [''bike''] (Some ''Red Bike, red-BIKE x'') = [''bike'', ''red'']"
    by code_simp
  then show ?thesis
    using addKeywords_idempotent [of "[''bike'']" "Some ''Red Bike, red-BIKE x''"]
    by simp
qed

subsection \<open>The candidate scorer\<close>

lemma matchesCategory_iff:
  "[] \<notin> set cats \<Longrightarrow> matchesCategory cats p = spec_category_in cats p"
  by (auto simp: matchesCategory_def spec_category_in_def truthy_def set_has_def
      split: option.splits)

lemma code_match_iff:
  "[] \<notin> set cats \<Longrightarrow> [] \<notin> set kws \<Longrightarrow>
     (matchesCategory cats p \<or> hasKeywordMatch (title p) kws) = spec_match cats kws p"
  by (simp add: spec_match_def matchesCategory_iff hasKeywordMatch_nonempty)

lemma categories_of_nonempty: "[] \<notin> set (categories_of srcs)"
  by (auto simp: categories_of_def set_new_set)

text \<open>The loop, with any arrays to start from: each array grows by one filter of the pool.\<close>

lemma foldl_classify:
  "foldl (classify pc pk sc sk ex) acc xs =
     \<lparr> primaryMatches = primaryMatches acc @
          filter (\<lambda>p. matchesCategory pc p \<or> hasKeywordMatch (title p) pk)
            (filter (\<lambda>p. pid p \<notin> set ex) xs),
       secondaryMatches = secondaryMatches acc @
          filter (\<lambda>p. matchesCategory sc p \<or> hasKeywordMatch (title p) sk)
            (filter (\<lambda>p. \<not> (matchesCategory pc p \<or> hasKeywordMatch (title p) pk))
               (filter (\<lambda>p. pid p \<notin> set ex) xs)),
       fallbackMatches = fallbackMatches acc @
          filter (\<lambda>p. \<not> (matchesCategory sc p \<or> hasKeywordMatch (title p) sk))
            (filter (\<lambda>p. \<not> (matchesCategory pc p \<or> hasKeywordMatch (title p) pk))
               (filter (\<lambda>p. pid p \<notin> set ex) xs)) \<rparr>"
proof (induction xs arbitrary: acc)
  case Nil
  show ?case by simp
next
  case (Cons x xs)
  show ?case
    unfolding foldl_Cons Cons.IH
    by (simp add: classify_def Let_def set_has_def)
qed

lemma score_candidates_tiers:
  "score_candidates pc pk sc sk ex xs =
     \<lparr> primaryMatches =
          filter (\<lambda>p. matchesCategory pc p \<or> hasKeywordMatch (title p) pk)
            (filter (\<lambda>p. pid p \<notin> set ex) xs),
       secondaryMatches =
          filter (\<lambda>p. matchesCategory sc p \<or> hasKeywordMatch (title p) sk)
            (filter (\<lambda>p. \<not> (matchesCategory pc p \<or> hasKeywordMatch (title p) pk))
               (filter (\<lambda>p. pid p \<notin> set ex) xs)),
       fallbackMatches =
          filter (\<lambda>p. \<not> (matchesCategory sc p \<or> hasKeywordMatch (title p) sk))
            (filter (\<lambda>p. \<not> (matchesCategory pc p \<or> hasKeywordMatch (title p) pk))
               (filter (\<lambda>p. pid p \<notin> set ex) xs)) \<rparr>"
  unfolding score_candidates_def foldl_classify by simp

lemma scorer_no_excluded: "p \<in> set (scorer pc pk sc sk ex pool) \<Longrightarrow> pid p \<notin> set ex"
  by (auto simp: scorer_def merge_tiers_def score_candidates_tiers dest!: in_set_takeD)

lemma length_partition3:
  "length (filter Q (filter P xs)) + length (filter R (filter (\<lambda>x. \<not> Q x) (filter P xs)))
    + length (filter (\<lambda>x. \<not> R x) (filter (\<lambda>x. \<not> Q x) (filter P xs)))
    + length (filter (\<lambda>x. \<not> P x) xs) = length xs"
  by (induction xs) auto

lemma scorer_well_formed:
  assumes "[] \<notin> set pc" "[] \<notin> set pk" "[] \<notin> set sc" "[] \<notin> set sk"
  shows "scorer pc pk sc sk ex pool = spec_tiered pc pk sc sk ex pool"
  by (simp add: scorer_def merge_tiers_def score_candidates_tiers spec_tiered_def Let_def
      code_match_iff [OF assms(1,2)] code_match_iff [OF assms(3,4)])

text \<open>
  C1.  The merged output of the scorer is: the non-excluded candidates whose
  category is in the primary category set or whose title keyword-matches the primary
  keyword set, then the remaining non-excluded candidates whose category is in the
  secondary category set or whose title keyword-matches the secondary keyword set,
  then all other non-excluded candidates, each tier in pool order, cut at the limit
  of 200.  This holds for every pool, every exclusion set and every pair of profiles
  without the empty label and the empty keyword, hence for every request: the
  handler builds its profiles without them.
\<close>

theorem scorer_tiered:
  "([] \<notin> set pc \<and> [] \<notin> set pk \<and> [] \<notin> set sc \<and> [] \<notin> set sk \<longrightarrow>
       scorer pc pk sc sk ex pool = spec_tiered pc pk sc sk ex pool)
   \<and> merged rx st i keyword =
       spec_tiered
         (categories_of (primarySources st i)) (keywords_of (primarySources st i) keyword)
         (categories_of (secondarySources st i)) (keywords_of (secondarySources st i) keyword)
         (excludeIds st i) (candidates_of rx st keyword)"
proof (intro conjI impI)
  show "scorer pc pk sc sk ex pool = spec_tiered pc pk sc sk ex pool"
    if "[] \<notin> set pc \<and> [] \<notin> set pk \<and> [] \<notin> set sc \<and> [] \<notin> set sk"
    using that by (simp add: scorer_well_formed)
  show "merged rx st i keyword =
       spec_tiered
         (categories_of (primarySources st i)) (keywords_of (primarySources st i) keyword)
         (categories_of (secondarySources st i)) (keywords_of (secondarySources st i) keyword)
         (excludeIds st i) (candidates_of rx st keyword)"
    unfolding merged_def
    by (rule scorer_well_formed)
      (rule categories_of_nonempty keywords_of_nonempty)+
qed

theorem scorer_tiered_witness:
  "[] \<notin> set [''furniture''] \<and> [] \<notin> set [''oak''] \<and> [] \<notin> set [''electronics'']
   \<and> scorer [''furniture''] [''oak''] [''electronics''] [] [''p1'']
        [lamp, phone, desk, chair] = [chair, phone, lamp]
   \<and> merged literal_rx shop ''u1'' [] = [chair, lamp]"
proof -
  have n: "[] \<notin> set [''furniture''] \<and> [] \<notin> set [''oak''] \<and> [] \<notin> set [''electronics'']
            \<and> [] \<notin> set ([] :: string list)"
    by simp
  have t: "spec_tiered [''furniture''] [''oak''] [''electronics''] [] [''p1'']
          [lamp, phone, desk, chair] = [chair, phone, lamp]"
    by code_simp
  have m: "spec_tiered
         (categories_of (primarySources shop ''u1'')) (keywords_of (primarySources shop ''u1'') [])
         (categories_of (secondarySources shop ''u1''))
         (keywords_of (secondarySources shop ''u1'') [])
         (excludeIds shop ''u1'') (candidates_of literal_rx shop []) = [chair, lamp]"
    by code_simp
  from scorer_tiered [of "[''furniture'']" "[''oak'']" "[''electronics'']" "[]" "[''p1'']"
      "[lamp, phone, desk, chair]" literal_rx shop "''u1''" "[]"] n t m
  show ?thesis by simp
qed

text \<open>
  C4.  Before truncation the three tiers together hold as many candidates as the
  pool has members, minus the members whose identity is in the exclusion set.
\<close>

theorem tier_sizes:
  "length (primaryMatches (score_candidates pc pk sc sk ex pool))
   + length (secondaryMatches (score_candidates pc pk sc sk ex pool))
   + length (fallbackMatches (score_candidates pc pk sc sk ex pool))
   = length pool - length (filter (\<lambda>p. pid p \<in> set ex) pool)"
  using length_partition3 [of "\<lambda>p. matchesCategory pc p \<or> hasKeywordMatch (title p) pk"
      "\<lambda>p. pid p \<notin> set ex" pool "\<lambda>p. matchesCategory sc p \<or> hasKeywordMatch (title p) sk"]
  by (simp add: score_candidates_tiers)

theorem tier_sizes_witness:
  "length (primaryMatches (score_candidates [''furniture''] [''oak''] [''electronics''] []
             [''p1''] [lamp, phone, desk, chair])) = 1
   \<and> length (secondaryMatches (score_candidates [''furniture''] [''oak''] [''electronics''] []
             [''p1''] [lamp, phone, desk, chair])) = 1
   \<and> length (fallbackMatches (score_candidates [''furniture''] [''oak''] [''electronics''] []
             [''p1''] [lamp, phone, desk, chair])) = 1
   \<and> length [lamp, phone, desk, chair]
        - length (filter (\<lambda>p. pid p \<in> set [''p1'']) [lamp, phone, desk, chair]) = 3"
proof -
  have "length (primaryMatches (score_candidates [''furniture''] [''oak''] [''electronics''] []
             [''p1''] [lamp, phone, desk, chair])) = 1"
    and "length (secondaryMatches (score_candidates [''furniture''] [''oak''] [''electronics''] []
             [''p1''] [lamp, phone, desk, chair])) = 1"
    and "length (fallbackMatches (score_candidates [''furniture''] [''oak''] [''electronics''] []
             [''p1''] [lamp, phone, desk, chair])) = 1"
    by code_simp+
  then show ?thesis
    using tier_sizes [of "[''furniture'']" "[''oak'']" "[''electronics'']" "[]" "[''p1'']"
        "[lamp, phone, desk, chair]"]
    by simp
qed

text \<open>
  C2.  For an identified caller, no listing of the merged output has its identity in
  the exclusion set, and the exclusion set holds exactly the identities of the loaded
  liked, shared and recently viewed listings.
\<close>

theorem merged_excludes:
  "(\<forall>p \<in> set (merged rx st i keyword). pid p \<notin> set (excludeIds st i))
   \<and> set (excludeIds st i) =
       s_id ` set (likedProducts st i) \<union> s_id ` set (find_in st (sharedIds st i))
        \<union> s_id ` set (find_in st (viewedIds st i))"
proof
  show "\<forall>p \<in> set (merged rx st i keyword). pid p \<notin> set (excludeIds st i)"
    unfolding merged_def by (blast dest: scorer_no_excluded)
  show "set (excludeIds st i) =
       s_id ` set (likedProducts st i) \<union> s_id ` set (find_in st (sharedIds st i))
        \<union> s_id ` set (find_in st (viewedIds st i))"
    by (simp add: excludeIds_def excludeIds_of_def set_new_set primarySources_def
        secondarySources_def image_Un Un_assoc)
qed

theorem merged_excludes_witness:
  "merged literal_rx shop ''u1'' [] = [chair, lamp]
   \<and> excludeIds shop ''u1'' = [''p1'', ''p3'']
   \<and> pid chair \<notin> set (excludeIds shop ''u1'')
   \<and> pid lamp \<notin> set (excludeIds shop ''u1'')"
proof -
  have m: "merged literal_rx shop ''u1'' [] = [chair, lamp]"
    by code_simp
  have e: "excludeIds shop ''u1'' = [''p1'', ''p3'']"
    by code_simp
  from merged_excludes [of literal_rx shop "''u1''" "[]", THEN conjunct1] m
  have "pid chair \<notin> set (excludeIds shop ''u1'')" "pid lamp \<notin> set (excludeIds shop ''u1'')"
    by simp_all
  with m e show ?thesis by simp
qed

subsection \<open>Sorting\<close>

lemma mset_insert_by: "mset (insert_by le x xs) = add_mset x (mset xs)"
  by (induction xs) auto

lemma mset_sort_by: "mset (sort_by le xs) = mset xs"
  unfolding sort_by_def by (induction xs) (auto simp: mset_insert_by)

lemma set_insert_by: "set (insert_by le x xs) = insert x (set xs)"
  by (induction xs) auto

lemma sorted_wrt_insert_by:
  assumes total: "\<And>a b. \<not> le a b \<Longrightarrow> le b a"
    and trans: "\<And>a b c. le a b \<Longrightarrow> le b c \<Longrightarrow> le a c"
    and "sorted_wrt le xs"
  shows "sorted_wrt le (insert_by le x xs)"
  using assms(3)
proof (induction xs)
  case Nil
  show ?case by simp
next
  case (Cons y ys)
  show ?case
  proof (cases "le x y")
    case True
    with Cons.prems show ?thesis by (auto intro: trans)
  next
    case False
    then have "le y x" by (rule total)
    with False Cons show ?thesis by (auto simp: set_insert_by)
  qed
qed

lemma sorted_wrt_sort_by:
  assumes total: "\<And>a b. \<not> le a b \<Longrightarrow> le b a"
    and trans: "\<And>a b c. le a b \<Longrightarrow> le b c \<Longrightarrow> le a c"
  shows "sorted_wrt le (sort_by le xs)"
  unfolding sort_by_def
  by (induction xs) (auto intro: sorted_wrt_insert_by total trans)

lemma insert_by_map:
  "insert_by le (g x) (map g xs) = map g (insert_by (\<lambda>a b. le (g a) (g b)) x xs)"
  by (induction xs) auto

lemma sort_by_map:
  "sort_by le (map g xs) = map g (sort_by (\<lambda>a b. le (g a) (g b)) xs)"
  unfolding sort_by_def by (induction xs) (auto simp: insert_by_map)

lemma sorted_wrt_prefix: "sorted_wrt P xs \<Longrightarrow> sorted_wrt P (take n xs)"
  by (metis append_take_drop_id sorted_wrt_append)

text \<open>
  The most recent listings: a prefix of a rearrangement of the matching listings in
  which no listing stands before a newer one.
\<close>

lemma before_desc_createdAt:
  "before_desc [key_createdAt] = (\<lambda>a b. createdAt b \<le> createdAt a)"
  by (intro ext) (auto simp: key_createdAt_def)

lemma find_recent_spec:
  "\<exists>L. mset L = mset (filter (matches rx f) (products st))
      \<and> sorted_wrt (\<lambda>a b. createdAt b \<le> createdAt a) L
      \<and> find_recent rx st f n = take n L"
proof -
  let ?L = "sort_by (\<lambda>a b. createdAt b \<le> createdAt a) (filter (matches rx f) (products st))"
  have "sorted_wrt (\<lambda>a b. createdAt b \<le> createdAt a) ?L"
    by (rule sorted_wrt_sort_by) auto
  moreover have "find_recent rx st f n = take n ?L"
    by (simp add: find_recent_def before_desc_createdAt)
  ultimately show ?thesis
    using mset_sort_by by blast
qed

subsection \<open>Popular mode\<close>

lemma before_desc_popular:
  "before_desc popular_keys (addScore (addCounts p)) (addScore (addCounts q))
     = (spec_key q \<le> spec_key p)"
  by (auto simp: popular_keys_def addScore_def addCounts_def spec_key_def spec_popularityScore_def
      spec_likeCount_def spec_shareCount_def key_createdAt_def)

lemma project_scored: "project_out (addScore (addCounts p)) = spec_returned p"
  by (simp add: project_out_def addScore_def addCounts_def spec_returned_def spec_likeCount_def
      spec_shareCount_def)

lemma popular_pipeline_eq:
  "popular_pipeline rx f ps =
     map spec_returned (take 200 (sort_by (\<lambda>a b. spec_key b \<le> spec_key a) (filter (matches rx f) ps)))"
proof -
  let ?g = "\<lambda>p. addScore (addCounts p)"
  have "sort_by (before_desc popular_keys) (map addScore (map addCounts xs))
          = map ?g (sort_by (\<lambda>a b. spec_key b \<le> spec_key a) xs)" for xs
  proof -
    have "map addScore (map addCounts xs) = map ?g xs" by simp
    then show ?thesis by (simp only: sort_by_map before_desc_popular)
  qed
  then show ?thesis
    unfolding popular_pipeline_def
    by (simp add: take_map project_scored)
qed

lemma sorted_spec_key:
  "sorted_wrt (\<lambda>a b. spec_key b \<le> spec_key a) (sort_by (\<lambda>a b. spec_key b \<le> spec_key a) xs)"
  by (rule sorted_wrt_sort_by) auto

lemma popular_exists:
  "\<exists>L. mset L = mset (filter (matches rx f) ps)
     \<and> sorted_wrt (\<lambda>a b. spec_key b \<le> spec_key a) L
     \<and> popular_pipeline rx f ps = map spec_returned (take 200 L)"
  using popular_pipeline_eq mset_sort_by sorted_spec_key by blast

lemma popular_sorted_out:
  "sorted_wrt (\<lambda>a b. spec_key (doc b) \<le> spec_key (doc a)) (popular_pipeline rx f ps)"
proof -
  have k: "spec_key (doc (spec_returned p)) = spec_key p" for p
    by (simp add: spec_returned_def spec_key_def spec_popularityScore_def spec_likeCount_def
        spec_shareCount_def)
  show ?thesis
    unfolding popular_pipeline_eq
    by (simp add: sorted_wrt_map k sorted_wrt_prefix sorted_spec_key)
qed

lemma popular_A_before_B:
  assumes "i < length (popular_pipeline rx f ps)" "j < length (popular_pipeline rx f ps)"
    and "likeCount (popular_pipeline rx f ps ! i) = 10"
    and "shareCount (doc (popular_pipeline rx f ps ! i)) = Some 2"
    and "likeCount (popular_pipeline rx f ps ! j) = 8"
    and "shareCount (doc (popular_pipeline rx f ps ! j)) = Some 4"
  shows "i < j"
proof (rule ccontr)
  assume "\<not> i < j"
  with assms have "j < i" by (cases "i = j") auto
  let ?out = "popular_pipeline rx f ps"
  have lk: "\<And>d. d \<in> set ?out \<Longrightarrow> likeCount d = spec_likeCount (doc d)"
    by (auto simp: popular_pipeline_eq spec_returned_def spec_likeCount_def dest!: in_set_takeD)
  from popular_sorted_out[of rx f ps] \<open>j < i\<close> assms(1)
  have "spec_key (doc (?out ! i)) \<le> spec_key (doc (?out ! j))"
    by (simp add: sorted_wrt_iff_nth_less)
  moreover have "spec_likeCount (doc (?out ! i)) = 10" "spec_likeCount (doc (?out ! j)) = 8"
    using lk assms by (metis nth_mem)+
  ultimately show False using assms(4,6)
    by (simp add: spec_key_def spec_popularityScore_def spec_shareCount_def)
qed

text \<open>
  C3.  Popular mode answers with the aggregation over the filtered collection.  The
  answer is the first 200 entries of a rearrangement of the matching listings in
  descending order of the key (popularityScore, likeCount, shareCount, createdAt),
  where likeCount is the size of likedBy, shareCount the stored counter, both 0 when
  absent, and popularityScore their sum; each entry carries likeCount and shareCount
  and no popularityScore.  An entry with 10 likes and 2 shares stands before every
  entry with 8 likes and 4 shares.
\<close>

theorem popular_mode:
  "list_products rx st query cat (Some ''popular'') =
     Ok (Ranked (popular_pipeline rx
           \<lparr> f_title = trimmed_param query, f_category = trimmed_param cat \<rparr> (products st)))
   \<and> (\<exists>L. mset L = mset (filter (matches rx f) ps)
          \<and> sorted_wrt (\<lambda>a b. spec_key b \<le> spec_key a) L
          \<and> popular_pipeline rx f ps = map spec_returned (take 200 L))
   \<and> length (popular_pipeline rx f ps) \<le> 200
   \<and> (\<forall>d \<in> set (popular_pipeline rx f ps). popularityScore d = None)
   \<and> (\<forall>i j. i < length (popular_pipeline rx f ps) \<and> j < length (popular_pipeline rx f ps)
          \<and> likeCount (popular_pipeline rx f ps ! i) = 10
          \<and> shareCount (doc (popular_pipeline rx f ps ! i)) = Some 2
          \<and> likeCount (popular_pipeline rx f ps ! j) = 8
          \<and> shareCount (doc (popular_pipeline rx f ps ! j)) = Some 4
        \<longrightarrow> i < j)"
proof (intro conjI)
  show "list_products rx st query cat (Some ''popular'') =
     Ok (Ranked (popular_pipeline rx
           \<lparr> f_title = trimmed_param query, f_category = trimmed_param cat \<rparr> (products st)))"
    by (simp add: list_products_def)
  show "\<exists>L. mset L = mset (filter (matches rx f) ps)
          \<and> sorted_wrt (\<lambda>a b. spec_key b \<le> spec_key a) L
          \<and> popular_pipeline rx f ps = map spec_returned (take 200 L)"
    by (rule popular_exists)
  show "length (popular_pipeline rx f ps) \<le> 200"
    by (simp add: popular_pipeline_def)
  show "\<forall>d \<in> set (popular_pipeline rx f ps). popularityScore d = None"
    by (auto simp: popular_pipeline_def project_out_def)
  show "\<forall>i j. i < length (popular_pipeline rx f ps) \<and> j < length (popular_pipeline rx f ps)
          \<and> likeCount (popular_pipeline rx f ps ! i) = 10
          \<and> shareCount (doc (popular_pipeline rx f ps ! i)) = Some 2
          \<and> likeCount (popular_pipeline rx f ps ! j) = 8
          \<and> shareCount (doc (popular_pipeline rx f ps ! j)) = Some 4
        \<longrightarrow> i < j"
    using popular_A_before_B by blast
qed

theorem popular_mode_witness:
  "list_products literal_rx ab_store None None (Some ''popular'') =
     Ok (Ranked [spec_returned listingA, spec_returned listingB])
   \<and> likeCount (spec_returned listingA) = 10 \<and> shareCount (doc (spec_returned listingA)) = Some 2
   \<and> likeCount (spec_returned listingB) = 8 \<and> shareCount (doc (spec_returned listingB)) = Some 4
   \<and> popularityScore (spec_returned listingA) = None
   \<and> (0::nat) < 1"
proof -
  let ?f = "\<lparr> f_title = trimmed_param None, f_category = trimmed_param None \<rparr>"
  have out: "popular_pipeline literal_rx ?f (products ab_store)
               = [spec_returned listingA, spec_returned listingB]"
    by code_simp
  have a: "likeCount (spec_returned listingA) = 10" "shareCount (doc (spec_returned listingA)) = Some 2"
    and b: "likeCount (spec_returned listingB) = 8" "shareCount (doc (spec_returned listingB)) = Some 4"
    by code_simp+
  note inst = popular_mode [of literal_rx ab_store None None ?f "products ab_store"]
  from inst out have r: "list_products literal_rx ab_store None None (Some ''popular'') =
     Ok (Ranked [spec_returned listingA, spec_returned listingB])"
    by simp
  from inst out have n: "popularityScore (spec_returned listingA) = None"
    by simp
  from inst have "0 < length (popular_pipeline literal_rx ?f (products ab_store))
          \<and> 1 < length (popular_pipeline literal_rx ?f (products ab_store))
          \<and> likeCount (popular_pipeline literal_rx ?f (products ab_store) ! 0) = 10
          \<and> shareCount (doc (popular_pipeline literal_rx ?f (products ab_store) ! 0)) = Some 2
          \<and> likeCount (popular_pipeline literal_rx ?f (products ab_store) ! 1) = 8
          \<and> shareCount (doc (popular_pipeline literal_rx ?f (products ab_store) ! 1)) = Some 4
        \<longrightarrow> (0::nat) < 1"
    by blast
  with out a b have "(0::nat) < 1" by simp
  with r a b n show ?thesis by simp
qed

subsection \<open>The recommendation handler\<close>

lemma keywordFilter_trimmed:
  "keywordFilter (keyword_of query) = \<lparr> f_title = trimmed_param query, f_category = None \<rparr>"
  by (cases query) (auto simp: keywordFilter_def keyword_of_def trimmed_param_def trim_def)

lemma default_mode:
  "list_products rx st query None None
     = Ok (Plain (find_recent rx st (keywordFilter (keyword_of query)) 200))"
  by (simp add: list_products_def keywordFilter_trimmed trimmed_param_def)

lemma no_likes_no_liked:
  "\<forall>p \<in> set (products st). i \<notin> set (hydrated_likedBy p) \<Longrightarrow> likedProducts st i = []"
  by (auto simp: likedProducts_def hydrated_likedBy_def filter_empty_conv split: option.splits)

lemma keyword_of_param_Str: "keyword_of_param (map_option Str query) = Inr (keyword_of query)"
  by (cases query) (simp_all add: keyword_of_param_def)

lemma accepts_keywordFilter:
  "accepts rx_ok (keywordFilter keyword) = (keyword = [] \<or> rx_ok keyword)"
  by (simp add: accepts_def keywordFilter_def)

text \<open>The handler, case by case: what it answers when the keyword is usable.\<close>

lemma recommend_usable:
  assumes "keyword_of_param q = Inr keyword" and "keyword = [] \<or> rx_ok keyword"
  shows "recommend rx_ok rx st user q =
     Inr (Ok (case user of
                None \<Rightarrow> find_recent rx st (keywordFilter keyword) 200
              | Some i \<Rightarrow>
                  if (primarySources st i = [] \<and> secondarySources st i = [] \<and> keyword = [])
                     \<or> merged rx st i keyword = []
                  then find_recent rx st (keywordFilter keyword) 200
                  else merged rx st i keyword))"
  using assms
  by (cases user)
    (auto simp: recommend_def fetchDefaultList_def find_recent_db_def accepts_keywordFilter
      merged_def candidates_of_def Let_def)

text \<open>What it throws otherwise.\<close>

lemma recommend_not_a_string:
  "keyword_of_param q = Inl e \<Longrightarrow> recommend rx_ok rx st user q = Inl e"
  by (simp add: recommend_def)

lemma recommend_rejected_pattern:
  assumes "keyword_of_param q = Inr keyword" and "keyword \<noteq> []" and "\<not> rx_ok keyword"
  shows "recommend rx_ok rx st user q = Inl StoreError"
  using assms
  by (cases user)
    (auto simp: recommend_def fetchDefaultList_def find_recent_db_def accepts_keywordFilter)

text \<open>
  C5 (as amended).  The recommend operation raises no domain error of its own: for
  every request whose parameter \<open>q\<close> is absent or a string, and whose trimmed keyword
  is empty or a pattern the database accepts, it answers with a listing sequence.
  The answer is the default-mode result for the same keyword (the matching listings,
  most recent first, at most 200) when the identified user has no liked listing and
  empty shared and viewed histories and gave no keyword, and when the merged tiered
  result is empty.
\<close>

theorem recommend_total:
  "(keyword_of_param q = Inr keyword \<and> (keyword = [] \<or> rx_ok keyword)
      \<longrightarrow> (\<exists>l. recommend rx_ok rx st user q = Inr (Ok l)))
   \<and> ((\<forall>p \<in> set (products st). i \<notin> set (hydrated_likedBy p))
        \<and> sharedIds st i = [] \<and> viewedIds st i = [] \<and> keyword_of_param q = Inr []
      \<longrightarrow> recommend rx_ok rx st (Some i) q
            = Inr (Ok (find_recent rx st (keywordFilter []) 200)))
   \<and> (keyword_of_param q = Inr keyword \<and> (keyword = [] \<or> rx_ok keyword)
        \<and> merged rx st i keyword = []
      \<longrightarrow> recommend rx_ok rx st (Some i) q
            = Inr (Ok (find_recent rx st (keywordFilter keyword) 200)))
   \<and> list_products rx st query None None
        = Ok (Plain (find_recent rx st (keywordFilter (keyword_of query)) 200))
   \<and> (\<exists>L. mset L = mset (filter (matches rx (keywordFilter (keyword_of query))) (products st))
          \<and> sorted_wrt (\<lambda>a b. createdAt b \<le> createdAt a) L
          \<and> find_recent rx st (keywordFilter (keyword_of query)) 200 = take 200 L)"
proof (intro conjI impI)
  assume "keyword_of_param q = Inr keyword \<and> (keyword = [] \<or> rx_ok keyword)"
  then show "\<exists>l. recommend rx_ok rx st user q = Inr (Ok l)"
    by (simp add: recommend_usable)
next
  assume h: "(\<forall>p \<in> set (products st). i \<notin> set (hydrated_likedBy p))
        \<and> sharedIds st i = [] \<and> viewedIds st i = [] \<and> keyword_of_param q = Inr []"
  then have "likedProducts st i = []"
    by (simp add: no_likes_no_liked)
  with h have "primarySources st i = []" "secondarySources st i = []"
    by (simp_all add: primarySources_def secondarySources_def find_in_def)
  with h show "recommend rx_ok rx st (Some i) q
            = Inr (Ok (find_recent rx st (keywordFilter []) 200))"
    by (simp add: recommend_usable [where keyword = "[]"])
next
  assume "keyword_of_param q = Inr keyword \<and> (keyword = [] \<or> rx_ok keyword)
        \<and> merged rx st i keyword = []"
  then show "recommend rx_ok rx st (Some i) q
            = Inr (Ok (find_recent rx st (keywordFilter keyword) 200))"
    by (simp add: recommend_usable [where keyword = keyword])
next
  show "list_products rx st query None None
        = Ok (Plain (find_recent rx st (keywordFilter (keyword_of query)) 200))"
    by (rule default_mode)
next
  show "\<exists>L. mset L = mset (filter (matches rx (keywordFilter (keyword_of query))) (products st))
          \<and> sorted_wrt (\<lambda>a b. createdAt b \<le> createdAt a) L
          \<and> find_recent rx st (keywordFilter (keyword_of query)) 200 = take 200 L"
    by (rule find_recent_spec)
qed

theorem recommend_total_witness:
  "recommend any_pattern literal_rx shop (Some ''u7'') (Some (Str '' ''))
     = Inr (Ok [chair, desk, lamp, phone])
   \<and> list_products literal_rx shop (Some '' '') None None = Ok (Plain [chair, desk, lamp, phone])
   \<and> merged literal_rx one_liked ''u1'' ''oak'' = []
   \<and> recommend any_pattern literal_rx one_liked (Some ''u1'') (Some (Str ''oak''))
       = Inr (Ok [desk])"
proof -
  have k: "keyword_of_param (Some (Str '' '')) = Inr []"
    "keyword_of_param (Some (Str ''oak'')) = Inr ''oak''" "keyword_of (Some '' '') = []"
    by code_simp+
  have ok: "any_pattern ''oak''"
    by (simp add: any_pattern_def)
  have d: "find_recent literal_rx shop (keywordFilter []) 200 = [chair, desk, lamp, phone]"
    by code_simp
  have h: "(\<forall>p \<in> set (products shop). ''u7'' \<notin> set (hydrated_likedBy p))
        \<and> sharedIds shop ''u7'' = [] \<and> viewedIds shop ''u7'' = []"
    by code_simp
  have m: "merged literal_rx one_liked ''u1'' ''oak'' = []"
    by code_simp
  have d': "find_recent literal_rx one_liked (keywordFilter ''oak'') 200 = [desk]"
    by code_simp
  from recommend_total [of "Some (Str '' '')" "[]" any_pattern literal_rx shop "Some ''u7''"
      "''u7''" "Some '' ''"] h k d
  have "recommend any_pattern literal_rx shop (Some ''u7'') (Some (Str '' ''))
          = Inr (Ok [chair, desk, lamp, phone])"
    and "list_products literal_rx shop (Some '' '') None None
           = Ok (Plain [chair, desk, lamp, phone])"
    by simp_all
  moreover
  from recommend_total [of "Some (Str ''oak'')" "''oak''" any_pattern literal_rx one_liked
      "Some ''u1''" "''u1''" None] k ok m d'
  have "recommend any_pattern literal_rx one_liked (Some ''u1'') (Some (Str ''oak''))
          = Inr (Ok [desk])"
    by simp
  ultimately show ?thesis using m by simp
qed

text \<open>
  C5 as stated fails for the request \<open>?q=a&q=b\<close>: the parameter is an array,
  \<open>.trim()\<close> throws, and the handler answers with no listing sequence.  It also
  fails for \<open>?q=(\<close>: the keyword goes into \<open>$regex\<close> as it is and the database
  rejects the read.
\<close>

theorem recommend_array_q_counterexample:
  "recommend any_pattern literal_rx shop None (Some (Arr [Str ''a'', Str ''b'']))
     = Inl TypeError
   \<and> recommend all_but_paren literal_rx shop None (Some (Str ''('')) = Inl StoreError"
proof -
  have "keyword_of_param (Some (Str ''('')) = Inr ''(''"
    by code_simp
  then have "recommend all_but_paren literal_rx shop None (Some (Str ''('')) = Inl StoreError"
    by (rule recommend_rejected_pattern) (simp_all add: all_but_paren_def)
  then show ?thesis
    by (simp add: recommend_def keyword_of_param_def)
qed

text \<open>
  C6.  For every store, a recommend request without identity and without keyword, and
  a default-mode request whose keyword filter is empty, answer with the same sequence:
  the first 200 listings, most recent first.
\<close>

theorem anonymous_recommend_default:
  assumes "keyword_of query = []" and "trimmed_param query' = None"
    and "sortp \<noteq> Some ''popular''"
  shows "recommend rx_ok rx st None (map_option Str query)
           = Inr (Ok (find_recent rx st \<lparr> f_title = None, f_category = None \<rparr> 200))
   \<and> list_products rx st query' None sortp
           = Ok (Plain (find_recent rx st \<lparr> f_title = None, f_category = None \<rparr> 200))
   \<and> (\<exists>L. mset L = mset (products st)
          \<and> sorted_wrt (\<lambda>a b. createdAt b \<le> createdAt a) L
          \<and> find_recent rx st \<lparr> f_title = None, f_category = None \<rparr> 200 = take 200 L)"
proof (intro conjI)
  have "keyword_of_param (map_option Str query) = Inr []"
    using assms(1) by (simp add: keyword_of_param_Str)
  then show "recommend rx_ok rx st None (map_option Str query)
           = Inr (Ok (find_recent rx st \<lparr> f_title = None, f_category = None \<rparr> 200))"
    by (simp add: recommend_usable [where keyword = "[]"] keywordFilter_def)
  show "list_products rx st query' None sortp
           = Ok (Plain (find_recent rx st \<lparr> f_title = None, f_category = None \<rparr> 200))"
    using assms(2,3) by (simp add: list_products_def trimmed_param_def)
  have "filter (matches rx \<lparr> f_title = None, f_category = None \<rparr>) (products st) = products st"
    by (simp add: matches_def)
  with find_recent_spec [of rx "\<lparr> f_title = None, f_category = None \<rparr>" st 200]
  show "\<exists>L. mset L = mset (products st)
          \<and> sorted_wrt (\<lambda>a b. createdAt b \<le> createdAt a) L
          \<and> find_recent rx st \<lparr> f_title = None, f_category = None \<rparr> 200 = take 200 L"
    by simp
qed

theorem anonymous_recommend_default_witness:
  "recommend any_pattern literal_rx shop None (Some (Str ''  ''))
     = Inr (Ok [chair, desk, lamp, phone])
   \<and> list_products literal_rx shop None None None = Ok (Plain [chair, desk, lamp, phone])"
proof -
  have a: "keyword_of (Some ''  '') = []" "trimmed_param None = None"
    "(None :: string option) \<noteq> Some ''popular''"
    by code_simp+
  have d: "find_recent literal_rx shop \<lparr> f_title = None, f_category = None \<rparr> 200
             = [chair, desk, lamp, phone]"
    by code_simp
  from anonymous_recommend_default [OF a, of any_pattern literal_rx shop] d
  show ?thesis by simp
qed

text \<open>
  C10.  There are a store and an identified user for which the merged tiered result
  is empty and the answer, taken from the default list, holds a listing whose identity
  is in the exclusion set: the default list is fetched without the exclusion set.
\<close>

theorem fallback_returns_excluded:
  "\<exists>st i p ps. merged rx st i (keyword_of None) = []
      \<and> recommend rx_ok rx st (Some i) None = Inr (Ok ps)
      \<and> p \<in> set ps \<and> pid p \<in> set (excludeIds st i)"
proof -
  have k: "keyword_of None = []"
    by (simp add: keyword_of_def trim_def)
  then have kp: "keyword_of_param None = Inr []"
    by (simp add: keyword_of_param_def)
  have l: "likedProducts one_liked ''u1'' = [select_category_title desk]"
    by (simp add: likedProducts_def one_liked_def desk_def)
  have s: "sharedIds one_liked ''u1'' = []" "viewedIds one_liked ''u1'' = []"
    by (simp_all add: sharedIds_def viewedIds_def findById_def one_liked_def)
  have e: "excludeIds one_liked ''u1'' = [''p1'']"
    by (simp add: excludeIds_def excludeIds_of_def primarySources_def secondarySources_def
        l s find_in_def new_set_def set_add_def select_category_title_def desk_def)
  have c: "candidates_of rx one_liked [] = [desk]"
    by (simp add: candidates_of_def find_recent_def keywordFilter_def matches_def one_liked_def
        sort_by_def)
  have m: "merged rx one_liked ''u1'' [] = []"
    by (simp add: merged_def e c scorer_def merge_tiers_def score_candidates_def classify_def
        set_has_def desk_def)
  have d: "find_recent rx one_liked (keywordFilter []) 200 = [desk]"
    by (simp add: find_recent_def keywordFilter_def matches_def one_liked_def sort_by_def)
  have r: "recommend rx_ok rx one_liked (Some ''u1'') None = Inr (Ok [desk])"
    by (simp add: recommend_usable [OF kp] m d)
  have "pid desk \<in> set (excludeIds one_liked ''u1'')"
    by (simp add: e desk_def)
  with k m r show ?thesis
    by (metis list.set_intros(1))
qed

subsection \<open>The like toggle\<close>

lemma find_save:
  "find (\<lambda>p. pid p = i) ps = Some item \<Longrightarrow> pid item' = pid item
     \<Longrightarrow> find (\<lambda>p. pid p = i) (save item' ps) = Some item'"
proof (induction ps)
  case Nil
  then show ?case by simp
next
  case (Cons p ps)
  then show ?case
    by (cases "pid p = i") (auto dest: find_Some_iff [THEN iffD1])
qed

lemma pid_toggle: "pid (toggle u item) = pid item"
  by (simp add: toggle_def Let_def)

lemma hydrated_update: "hydrated_likedBy (item\<lparr> likedBy := Some l \<rparr>) = l"
  by (simp add: hydrated_likedBy_def)

lemma likedBy_toggle:
  "hydrated_likedBy (toggle u item) =
     (if u \<in> set (hydrated_likedBy item) then filter (\<lambda>x. x \<noteq> u) (hydrated_likedBy item)
      else hydrated_likedBy item @ [u])"
  by (simp add: toggle_def Let_def list_ex_iff hydrated_update)

lemma length_without:
  "distinct xs \<Longrightarrow> u \<in> set xs \<Longrightarrow> length (filter (\<lambda>x. x \<noteq> u) xs) = length xs - 1"
proof (induction xs)
  case Nil
  then show ?case by simp
next
  case (Cons x xs)
  show ?case
  proof (cases "x = u")
    case True
    with Cons.prems have "filter (\<lambda>y. y \<noteq> u) xs = xs"
      by (auto simp: filter_id_conv)
    with True show ?thesis by simp
  next
    case False
    with Cons have "length (filter (\<lambda>y. y \<noteq> u) xs) = length xs - 1" and "0 < length xs"
      by (auto simp: length_pos_if_in_set)
    with False show ?thesis by simp
  qed
qed

text \<open>
  C9.  When the stored listing names each user at most once in \<open>likedBy\<close>, the like
  toggle of an authenticated user writes back a listing that still does: the user is
  removed when present, and appended exactly once when absent.
\<close>

theorem like_toggle_distinct:
  assumes "find (\<lambda>p. pid p = i) (products st) = Some item"
    and "distinct (hydrated_likedBy item)"
  shows "find (\<lambda>p. pid p = i) (products (snd (like st (Some u) i))) = Some (toggle u item)
   \<and> distinct (hydrated_likedBy (toggle u item))
   \<and> (u \<in> set (hydrated_likedBy item) \<longrightarrow>
        hydrated_likedBy (toggle u item) = filter (\<lambda>x. x \<noteq> u) (hydrated_likedBy item)
        \<and> u \<notin> set (hydrated_likedBy (toggle u item))
        \<and> fst (like st (Some u) i) = Ok (False, length (hydrated_likedBy item) - 1))
   \<and> (u \<notin> set (hydrated_likedBy item) \<longrightarrow>
        hydrated_likedBy (toggle u item) = hydrated_likedBy item @ [u]
        \<and> count_list (hydrated_likedBy (toggle u item)) u = 1
        \<and> fst (like st (Some u) i) = Ok (True, length (hydrated_likedBy item) + 1))"
proof (intro conjI impI)
  show "find (\<lambda>p. pid p = i) (products (snd (like st (Some u) i))) = Some (toggle u item)"
    using assms(1) by (simp add: like_def Let_def find_save pid_toggle)
  show "distinct (hydrated_likedBy (toggle u item))"
    using assms(2) by (simp add: likedBy_toggle)
next
  assume p: "u \<in> set (hydrated_likedBy item)"
  then show "hydrated_likedBy (toggle u item) = filter (\<lambda>x. x \<noteq> u) (hydrated_likedBy item)"
    and "u \<notin> set (hydrated_likedBy (toggle u item))"
    by (simp_all add: likedBy_toggle)
  from assms(2) p
  have "length (filter (\<lambda>x. x \<noteq> u) (hydrated_likedBy item)) = length (hydrated_likedBy item) - 1"
    by (rule length_without)
  with p assms(1) show "fst (like st (Some u) i) = Ok (False, length (hydrated_likedBy item) - 1)"
    by (simp add: like_def Let_def list_ex_iff likedBy_toggle)
next
  assume a: "u \<notin> set (hydrated_likedBy item)"
  then show "hydrated_likedBy (toggle u item) = hydrated_likedBy item @ [u]"
    by (simp add: likedBy_toggle)
  from a show "count_list (hydrated_likedBy (toggle u item)) u = 1"
    by (simp add: likedBy_toggle count_list_0_iff)
  from a assms(1) show "fst (like st (Some u) i) = Ok (True, length (hydrated_likedBy item) + 1)"
    by (simp add: like_def Let_def list_ex_iff likedBy_toggle)
qed

theorem like_toggle_distinct_witness:
  "find (\<lambda>p. pid p = ''p1'') (products shop) = Some desk
   \<and> distinct (hydrated_likedBy desk)
   \<and> hydrated_likedBy (toggle ''u1'' desk) = []
   \<and> hydrated_likedBy (toggle ''u2'' desk) = [''u1'', ''u2'']
   \<and> fst (like shop (Some ''u2'') ''p1'') = Ok (True, 2)
   \<and> find (\<lambda>p. pid p = ''p1'') (products (snd (like shop (Some ''u1'') ''p1'')))
        = Some (toggle ''u1'' desk)"
proof -
  have f: "find (\<lambda>p. pid p = ''p1'') (products shop) = Some desk"
    by code_simp
  have d: "distinct (hydrated_likedBy desk)"
    by code_simp
  have l: "hydrated_likedBy desk = [''u1'']"
    by code_simp
  from like_toggle_distinct [OF f d, of "''u1''"] like_toggle_distinct [OF f d, of "''u2''"] l f d
  show ?thesis by simp
qed

end
